theory Spec2Isabelle
  imports Complex_Main
begin

section \<open>Python numbers\<close>

text \<open>
  The coefficient values handled by the tuner are Python floats (and Python ints where a
  configuration literal has no decimal point). The operations the verified functions
  apply to them are comparison, \<^verbatim>\<open>min\<close>, \<^verbatim>\<open>max\<close>, \<^verbatim>\<open>round\<close>, integer \<^verbatim>\<open>//\<close> and
  \<^verbatim>\<open>%\<close>; all of them are exact on finite values, so a finite float or int is modelled by
  the rational number it denotes. An argument that arrives from outside the configuration
  may also be an infinity or a NaN; those are kept as separate values with the comparison
  results of IEEE 754.
\<close>

datatype pyfloat = Fin rat | PosInf | NegInf | NaN

datatype py_error = ValueError | OverflowError

text \<open>\<^verbatim>\<open>a < b\<close> on floats: false whenever an operand is NaN.\<close>

fun py_lt :: "pyfloat \<Rightarrow> pyfloat \<Rightarrow> bool" where
  "py_lt NaN b = False"
| "py_lt a NaN = False"
| "py_lt (Fin x) (Fin y) = (x < y)"
| "py_lt (Fin x) PosInf = True"
| "py_lt (Fin x) NegInf = False"
| "py_lt PosInf b = False"
| "py_lt NegInf NegInf = False"
| "py_lt NegInf b = True"

text \<open>
  The builtins \<^verbatim>\<open>min(a, b)\<close> and \<^verbatim>\<open>max(a, b)\<close> keep the first argument and replace it
  by the second only when the second is strictly smaller (strictly greater).
\<close>

definition py_min2 :: "pyfloat \<Rightarrow> pyfloat \<Rightarrow> pyfloat" where
  "py_min2 a b = (if py_lt b a then b else a)"

definition py_max2 :: "pyfloat \<Rightarrow> pyfloat \<Rightarrow> pyfloat" where
  "py_max2 a b = (if py_lt a b then b else a)"

text \<open>
  \<^verbatim>\<open>round(x)\<close> with one argument returns an int: the nearest integer, a tie going to the
  even neighbour. It raises ValueError on NaN and OverflowError on an infinity.
\<close>

definition round_half_even :: "rat \<Rightarrow> int" where
  "round_half_even x =
     (let f = \<lfloor>x\<rfloor>; d = x - of_int f
      in if d < 1 / 2 then f
         else if 1 / 2 < d then f + 1
         else if even f then f else f + 1)"

fun py_round :: "pyfloat \<Rightarrow> py_error + int" where
  "py_round (Fin x) = Inr (round_half_even x)"
| "py_round NaN = Inl ValueError"
| "py_round PosInf = Inl OverflowError"
| "py_round NegInf = Inl OverflowError"

text \<open>A number as a function returns it: a float, or an int after rounding.\<close>

datatype pynum = PyFloat pyfloat | PyInt int

text \<open>The number lies in the closed interval \<open>[lo, hi]\<close>.\<close>

fun in_bounds :: "rat \<Rightarrow> rat \<Rightarrow> pynum \<Rightarrow> bool" where
  "in_bounds lo hi (PyInt n) = (lo \<le> of_int n \<and> of_int n \<le> hi)"
| "in_bounds lo hi (PyFloat (Fin x)) = (lo \<le> x \<and> x \<le> hi)"
| "in_bounds lo hi (PyFloat PosInf) = False"
| "in_bounds lo hi (PyFloat NegInf) = False"
| "in_bounds lo hi (PyFloat NaN) = False"

section \<open>CoefficientConfig (mltune/tuner/config.py)\<close>

text \<open>
  The dataclass, field by field. The numeric fields come from the literals of
  COEFFICIENT_TUNING.py and are finite.
\<close>

record CoefficientConfig =
  name :: string
  default_value :: rat
  min_value :: rat
  max_value :: rat
  initial_step_size :: rat
  step_decay_rate :: rat
  is_integer :: bool
  enabled :: bool
  nt_key :: string
  autotune_override :: bool
  autotune_enabled :: bool
  autotune_shot_threshold :: int
  auto_advance_override :: bool
  auto_advance_on_success :: bool
  auto_advance_shot_threshold :: int

text \<open>
  \<^verbatim>\<open>clamped = max(self.min_value, min(self.max_value, value))\<close>, then
  \<^verbatim>\<open>round(clamped)\<close> when \<^verbatim>\<open>is_integer\<close> is set.
\<close>

definition clamp :: "CoefficientConfig \<Rightarrow> pyfloat \<Rightarrow> py_error + pynum" where
  "clamp self v =
     (let clamped = py_max2 (Fin (min_value self)) (py_min2 (Fin (max_value self)) v)
      in if is_integer self
         then (case py_round clamped of Inl e \<Rightarrow> Inl e | Inr n \<Rightarrow> Inr (PyInt n))
         else Inr (PyFloat clamped))"

definition get_effective_autotune_settings ::
    "CoefficientConfig \<Rightarrow> bool \<Rightarrow> int \<Rightarrow> bool \<Rightarrow> bool \<times> int" where
  "get_effective_autotune_settings self global_enabled global_threshold force_global =
     (if force_global then (global_enabled, global_threshold)
      else if autotune_override self
        then (autotune_enabled self, autotune_shot_threshold self)
      else (global_enabled, global_threshold))"

definition get_effective_auto_advance_settings ::
    "CoefficientConfig \<Rightarrow> bool \<Rightarrow> int \<Rightarrow> bool \<Rightarrow> bool \<times> int" where
  "get_effective_auto_advance_settings self global_auto_advance global_threshold force_global =
     (if force_global then (global_auto_advance, global_threshold)
      else if auto_advance_override self
        then (auto_advance_on_success self, auto_advance_shot_threshold self)
      else (global_auto_advance, global_threshold))"

text \<open>
  The policy resolution as the specification words it:
  \<^verbatim>\<open>effective = force_global ? global : (override_present ? local : global)\<close>.
\<close>

definition spec_effective :: "bool \<Rightarrow> bool \<Rightarrow> 'a \<Rightarrow> 'a \<Rightarrow> 'a" where
  "spec_effective force_global override_present local global =
     (if force_global then global else (if override_present then local else global))"

text \<open>A coefficient used in examples: only the bounds and the integer flag vary.\<close>

definition sample_coefficient :: "rat \<Rightarrow> rat \<Rightarrow> bool \<Rightarrow> CoefficientConfig" where
  "sample_coefficient lo hi int_flag =
     \<lparr> name = ''kSample'', default_value = lo, min_value = lo, max_value = hi,
       initial_step_size = 1, step_decay_rate = 9 / 10, is_integer = int_flag,
       enabled = True, nt_key = ''/Tuning/Coefficients/kSample'',
       autotune_override = False, autotune_enabled = False, autotune_shot_threshold = 10,
       auto_advance_override = False, auto_advance_on_success = False,
       auto_advance_shot_threshold = 10 \<rparr>"

section \<open>TunerConfig (mltune/tuner/config.py)\<close>

text \<open>
  The attributes that \<^verbatim>\<open>get_enabled_coefficients_in_order\<close> and \<^verbatim>\<open>validate_config\<close>
  read. \<^verbatim>\<open>COEFFICIENTS\<close> is a dict; it is kept as the list of its items in insertion
  order, which is the order \<^verbatim>\<open>.items()\<close> iterates in, and a lookup is \<open>map_of\<close>. The keys
  of a dict are distinct, which the theorems that count warnings assume of the list.
  \<^verbatim>\<open>TUNING_ORDER\<close> is a list of names and may repeat a name.
\<close>

record TunerConfig =
  COEFFICIENTS :: "(string \<times> CoefficientConfig) list"
  TUNING_ORDER :: "string list"
  N_INITIAL_POINTS :: int
  N_CALLS_PER_COEFFICIENT :: int
  MAX_NT_WRITE_RATE_HZ :: rat
  MAX_NT_READ_RATE_HZ :: rat
  PHYSICAL_MAX_VELOCITY_MPS :: rat
  PHYSICAL_MIN_VELOCITY_MPS :: rat
  PHYSICAL_MAX_ANGLE_RAD :: rat
  PHYSICAL_MIN_ANGLE_RAD :: rat
  PHYSICAL_MAX_DISTANCE_M :: rat
  PHYSICAL_MIN_DISTANCE_M :: rat
  TUNER_UPDATE_RATE_HZ :: rat

text \<open>
  \<^verbatim>\<open>[self.COEFFICIENTS[name] for name in self.TUNING_ORDER
     if name in self.COEFFICIENTS and self.COEFFICIENTS[name].enabled]\<close>
\<close>

definition get_enabled_coefficients_in_order :: "TunerConfig \<Rightarrow> CoefficientConfig list" where
  "get_enabled_coefficients_in_order self =
     concat (map (\<lambda>nm. case map_of (COEFFICIENTS self) nm of
                          None \<Rightarrow> []
                        | Some coeff \<Rightarrow> if enabled coeff then [coeff] else [])
                 (TUNING_ORDER self))"

text \<open>
  The warnings of \<^verbatim>\<open>validate_config\<close>, one constructor for each \<^verbatim>\<open>warnings.append\<close> of
  the source, and the text each one appends.
\<close>

datatype warning =
    EnabledNotInOrder string
  | OrderNotDefined string
  | MinNotBelowMax string
  | DefaultOutsideRange string
  | StepNotPositive string
  | DecayOutsideRange string
  | VelocityLimits
  | AngleLimits
  | DistanceLimits
  | InitialPoints
  | CallsBelowInitialPoints
  | UpdateRate
  | WriteRate
  | ReadRate

fun warning_message :: "warning \<Rightarrow> string" where
  "warning_message (EnabledNotInOrder nm) =
     ''Enabled coefficient '' @ [CHR 0x27] @ nm @ [CHR 0x27] @ '' not in TUNING_ORDER''"
| "warning_message (OrderNotDefined nm) =
     ''Coefficient '' @ [CHR 0x27] @ nm @ [CHR 0x27] @ '' in TUNING_ORDER but not defined''"
| "warning_message (MinNotBelowMax nm) = nm @ '': min_value must be < max_value''"
| "warning_message (DefaultOutsideRange nm) = nm @ '': default_value outside valid range''"
| "warning_message (StepNotPositive nm) = nm @ '': initial_step_size must be positive''"
| "warning_message (DecayOutsideRange nm) = nm @ '': step_decay_rate must be in (0, 1]''"
| "warning_message VelocityLimits = ''PHYSICAL_MIN_VELOCITY_MPS >= PHYSICAL_MAX_VELOCITY_MPS''"
| "warning_message AngleLimits = ''PHYSICAL_MIN_ANGLE_RAD >= PHYSICAL_MAX_ANGLE_RAD''"
| "warning_message DistanceLimits = ''PHYSICAL_MIN_DISTANCE_M >= PHYSICAL_MAX_DISTANCE_M''"
| "warning_message InitialPoints = ''N_INITIAL_POINTS must be >= 1''"
| "warning_message CallsBelowInitialPoints =
     ''N_CALLS_PER_COEFFICIENT must be >= N_INITIAL_POINTS''"
| "warning_message UpdateRate = ''TUNER_UPDATE_RATE_HZ must be positive''"
| "warning_message WriteRate = ''MAX_NT_WRITE_RATE_HZ must be positive''"
| "warning_message ReadRate = ''MAX_NT_READ_RATE_HZ must be positive''"

text \<open>The first loop: enabled coefficients that \<^verbatim>\<open>TUNING_ORDER\<close> does not name.\<close>

definition order_warnings :: "TunerConfig \<Rightarrow> warning list" where
  "order_warnings self =
     (let enabled_coeffs = map fst (filter (\<lambda>(nm, cfg). enabled cfg) (COEFFICIENTS self))
      in map EnabledNotInOrder
           (filter (\<lambda>nm. nm \<notin> set (TUNING_ORDER self)) enabled_coeffs))"

text \<open>The second loop: names of \<^verbatim>\<open>TUNING_ORDER\<close> that are not keys of \<^verbatim>\<open>COEFFICIENTS\<close>.\<close>

definition undefined_warnings :: "TunerConfig \<Rightarrow> warning list" where
  "undefined_warnings self =
     map OrderNotDefined
       (filter (\<lambda>nm. map_of (COEFFICIENTS self) nm = None) (TUNING_ORDER self))"

text \<open>The body of the third loop, for one item of \<^verbatim>\<open>COEFFICIENTS\<close>.\<close>

definition coefficient_warnings :: "string \<times> CoefficientConfig \<Rightarrow> warning list" where
  "coefficient_warnings item =
     (case item of (nm, coeff) \<Rightarrow>
        (if min_value coeff \<ge> max_value coeff then [MinNotBelowMax nm] else [])
      @ (if default_value coeff < min_value coeff \<or> default_value coeff > max_value coeff
         then [DefaultOutsideRange nm] else [])
      @ (if initial_step_size coeff \<le> 0 then [StepNotPositive nm] else [])
      @ (if \<not> (0 < step_decay_rate coeff \<and> step_decay_rate coeff \<le> 1)
         then [DecayOutsideRange nm] else []))"

text \<open>The checks of the physical limits and of the system parameters, in source order.\<close>

definition system_warnings :: "TunerConfig \<Rightarrow> warning list" where
  "system_warnings self =
       (if PHYSICAL_MIN_VELOCITY_MPS self \<ge> PHYSICAL_MAX_VELOCITY_MPS self
        then [VelocityLimits] else [])
     @ (if PHYSICAL_MIN_ANGLE_RAD self \<ge> PHYSICAL_MAX_ANGLE_RAD self
        then [AngleLimits] else [])
     @ (if PHYSICAL_MIN_DISTANCE_M self \<ge> PHYSICAL_MAX_DISTANCE_M self
        then [DistanceLimits] else [])
     @ (if N_INITIAL_POINTS self < 1 then [InitialPoints] else [])
     @ (if N_CALLS_PER_COEFFICIENT self < N_INITIAL_POINTS self
        then [CallsBelowInitialPoints] else [])
     @ (if TUNER_UPDATE_RATE_HZ self \<le> 0 then [UpdateRate] else [])
     @ (if MAX_NT_WRITE_RATE_HZ self \<le> 0 then [WriteRate] else [])
     @ (if MAX_NT_READ_RATE_HZ self \<le> 0 then [ReadRate] else [])"

definition validate_warnings :: "TunerConfig \<Rightarrow> warning list" where
  "validate_warnings self =
     order_warnings self @ undefined_warnings self
     @ concat (map coefficient_warnings (COEFFICIENTS self))
     @ system_warnings self"

definition validate_config :: "TunerConfig \<Rightarrow> string list" where
  "validate_config self = map warning_message (validate_warnings self)"

text \<open>A configuration used in examples: it varies in its coefficients and tuning order,
  and its physical limits and system parameters are valid.\<close>

definition sample_config :: "(string \<times> CoefficientConfig) list \<Rightarrow> string list \<Rightarrow> TunerConfig" where
  "sample_config coeffs order =
     \<lparr> COEFFICIENTS = coeffs, TUNING_ORDER = order,
       N_INITIAL_POINTS = 5, N_CALLS_PER_COEFFICIENT = 20,
       MAX_NT_WRITE_RATE_HZ = 5, MAX_NT_READ_RATE_HZ = 20,
       PHYSICAL_MAX_VELOCITY_MPS = 30, PHYSICAL_MIN_VELOCITY_MPS = 5,
       PHYSICAL_MAX_ANGLE_RAD = 3 / 2, PHYSICAL_MIN_ANGLE_RAD = 1 / 5,
       PHYSICAL_MAX_DISTANCE_M = 10, PHYSICAL_MIN_DISTANCE_M = 1,
       TUNER_UPDATE_RATE_HZ = 10 \<rparr>"

section \<open>The robot address (config.py and scripts/tuner_daemon.py)\<close>

text \<open>\<^verbatim>\<open>str\<close> of an int: decimal digits, most significant first, a minus sign before a
  negative number.\<close>

definition digit_char :: "nat \<Rightarrow> char" where
  "digit_char d = ''0123456789'' ! d"

fun str_nat :: "nat \<Rightarrow> string" where
  "str_nat n = (if n < 10 then [digit_char n] else str_nat (n div 10) @ [digit_char (n mod 10)])"

declare str_nat.simps [simp del]

definition py_str :: "int \<Rightarrow> string" where
  "py_str i = (if i < 0 then CHR ''-'' # str_nat (nat (- i)) else str_nat (nat i))"

text \<open>\<^verbatim>\<open>s.zfill(width)\<close>: zeros on the left up to the width, after a leading sign.\<close>

definition zfill :: "nat \<Rightarrow> string \<Rightarrow> string" where
  "zfill width s =
     (if width \<le> length s then s
      else (case s of
              [] \<Rightarrow> replicate width (CHR ''0'')
            | c # r \<Rightarrow>
                if c = CHR ''+'' \<or> c = CHR ''-''
                then c # replicate (width - length s) (CHR ''0'') @ r
                else replicate (width - length s) (CHR ''0'') @ s))"

text \<open>\<^verbatim>\<open>TunerConfig._load_toggles\<close>:
  \<^verbatim>\<open>f"10.{team_number // 100}.{team_number % 100}.2"\<close>. Python's \<^verbatim>\<open>//\<close> and \<^verbatim>\<open>%\<close> on
  ints floor, as \<open>div\<close> and \<open>mod\<close> on \<open>int\<close> do.\<close>

definition load_toggles_server_ip :: "int \<Rightarrow> string" where
  "load_toggles_server_ip team_number =
     ''10.'' @ py_str (team_number div 100) @ ''.'' @ py_str (team_number mod 100) @ ''.2''"

text \<open>\<^verbatim>\<open>tuner_daemon.main\<close>: \<^verbatim>\<open>team_str = str(team_number).zfill(4)\<close> and
  \<^verbatim>\<open>f"10.{team_str[:2]}.{team_str[2:]}.2"\<close> when the team number is positive, else
  \<^verbatim>\<open>None\<close> (auto-detect).\<close>

definition daemon_server_ip :: "int \<Rightarrow> string option" where
  "daemon_server_ip team_number =
     (if 0 < team_number
      then (let team_str = zfill 4 (py_str team_number)
            in Some (''10.'' @ take 2 team_str @ ''.'' @ drop 2 team_str @ ''.2''))
      else None)"

section \<open>The dashboard (dashboard/app.py)\<close>

text \<open>
  The entries of \<^verbatim>\<open>COEFFICIENT_CONFIG\<close>: a dict with the keys step, min and max. The
  fallback dict of \<^verbatim>\<open>clamp_coefficient_value\<close> has no step. The decimal literals stand
  for the numbers they denote; the function only compares them.
\<close>

record coefficient_limits =
  step_entry :: "rat option"
  min_entry :: rat
  max_entry :: rat

definition COEFFICIENT_CONFIG :: "(string \<times> coefficient_limits) list" where
  "COEFFICIENT_CONFIG =
     [ (''kDragCoefficient'',
          \<lparr>step_entry = Some (1 / 10000), min_entry = 1 / 1000, max_entry = 1 / 100\<rparr>),
       (''kGravity'', \<lparr>step_entry = Some (1 / 100), min_entry = 9, max_entry = 10\<rparr>),
       (''kShotHeight'', \<lparr>step_entry = Some (1 / 100), min_entry = 0, max_entry = 3\<rparr>),
       (''kTargetHeight'', \<lparr>step_entry = Some (1 / 100), min_entry = 0, max_entry = 5\<rparr>),
       (''kShooterAngle'', \<lparr>step_entry = Some 1, min_entry = 0, max_entry = 90\<rparr>),
       (''kShooterRPM'', \<lparr>step_entry = Some 50, min_entry = 0, max_entry = 6000\<rparr>),
       (''kExitVelocity'', \<lparr>step_entry = Some (1 / 10), min_entry = 0, max_entry = 30\<rparr>) ]"

text \<open>
  \<^verbatim>\<open>config = COEFFICIENT_CONFIG.get(coeff_name, {'min': 0, 'max': 100})\<close> and
  \<^verbatim>\<open>max(config['min'], min(value, config['max']))\<close>.
\<close>

definition clamp_coefficient_value :: "pyfloat \<Rightarrow> string \<Rightarrow> pyfloat" where
  "clamp_coefficient_value v coeff_name =
     (let config = (case map_of COEFFICIENT_CONFIG coeff_name of
                      Some entry \<Rightarrow> entry
                    | None \<Rightarrow> \<lparr>step_entry = None, min_entry = 0, max_entry = 100\<rparr>)
      in py_max2 (Fin (min_entry config)) (py_min2 v (Fin (max_entry config))))"

text \<open>
  The keys of the \<^verbatim>\<open>app-state\<close> dict that \<^verbatim>\<open>handle_shot_recording\<close> touches; a key may be
  absent, and the other keys of the dict are the extension of the record.
  \<^verbatim>\<open>state.get(key, default)\<close> is \<open>dict_get\<close>.
\<close>

record app_state =
  shot_count :: "int option"
  total_hits :: "int option"
  success_rate :: "rat option"

definition dict_get :: "'v option \<Rightarrow> 'v \<Rightarrow> 'v" where
  "dict_get entry dflt = (case entry of Some x \<Rightarrow> x | None \<Rightarrow> dflt)"

text \<open>
  \<^verbatim>\<open>handle_shot_recording\<close>, with \<^verbatim>\<open>ctx.triggered\<close> given as the list of its
  \<^verbatim>\<open>prop_id\<close>s. Without a trigger the state is returned as it is. Otherwise the button is
  the part of the first \<^verbatim>\<open>prop_id\<close> before its first dot, the shot count goes up, the hits
  go up on a hit, and the success rate is \<^verbatim>\<open>hits / state['shot_count']\<close> when the count is
  positive and \<^verbatim>\<open>0.0\<close> otherwise. The quotient is the exact one; Python rounds it to the
  nearest float, which keeps it between 0 and 1 when the exact quotient is. The calls to
  the tuner backend that follow are inside \<^verbatim>\<open>try ... except Exception\<close>, and neither they
  nor the printing change the state that is returned.
\<close>

definition handle_shot_recording ::
    "string list \<Rightarrow> 'a app_state_scheme \<Rightarrow> 'a app_state_scheme" where
  "handle_shot_recording triggered state =
     (case triggered of
        [] \<Rightarrow> state
      | prop_id # others \<Rightarrow>
          (let button_id = takeWhile (\<lambda>ch. ch \<noteq> CHR ''.'') prop_id;
               hit = (button_id = ''record-hit-btn'');
               new_count = dict_get (shot_count state) 0 + 1;
               state1 = state\<lparr>shot_count := Some new_count\<rparr>;
               hits = (if hit then dict_get (total_hits state1) 0 + 1
                       else dict_get (total_hits state1) 0);
               state2 = (if hit then state1\<lparr>total_hits := Some hits\<rparr> else state1)
           in state2\<lparr>success_rate :=
                Some (if 0 < new_count then of_int hits / of_int new_count else 0)\<rparr>))"

section \<open>Shot polling (RobotLinkInterface of the specification)\<close>

text \<open>
  The module \<^verbatim>\<open>nt_interface.py\<close> that implements \<^verbatim>\<open>read_shot_data\<close> is not among the
  sources; only its callers are. The remote table holds the shot fields and the shot
  timestamp key, which is unset until the peer writes it.
\<close>

record ShotObservation =
  hit :: bool
  distance :: rat
  exit_velocity :: rat
  timestamp :: rat

record RemoteTable =
  shot_timestamp_key :: "rat option"
  hit_key :: bool
  distance_key :: rat
  exit_velocity_key :: rat

record RobotLinkInterface =
  last_shot_timestamp :: rat

text \<open>
  Modelled from the spec: \<^verbatim>\<open>read_shot_data\<close> of the missing \<^verbatim>\<open>nt_interface.py\<close>. The
  specification (4.1): it "polls a shot timestamp key; returns a new observation only if
  the timestamp differs from the last observed value (strict greater-than on timestamp, to
  avoid reprocessing); returns None otherwise", it "reads all shot fields only once a new
  timestamp is confirmed", and (scenario C) it returns None while the peer has never set
  the key. The result is the observation, if any, and the interface with the timestamp it
  now remembers.
\<close>

definition read_shot_data ::
    "RobotLinkInterface \<Rightarrow> RemoteTable \<Rightarrow> ShotObservation option \<times> RobotLinkInterface" where
  "read_shot_data self table =
     (case shot_timestamp_key table of
        None \<Rightarrow> (None, self)
      | Some ts \<Rightarrow>
          if last_shot_timestamp self < ts
          then (Some \<lparr> hit = hit_key table, distance = distance_key table,
                       exit_velocity = exit_velocity_key table, timestamp = ts \<rparr>,
                self\<lparr>last_shot_timestamp := ts\<rparr>)
          else (None, self))"

text \<open>A sequence of polls, each one seeing the remote table as it is at that moment; the
  results are in the order of the polls.\<close>

fun poll_shots ::
    "RobotLinkInterface \<Rightarrow> RemoteTable list \<Rightarrow> ShotObservation option list \<times> RobotLinkInterface" where
  "poll_shots self [] = ([], self)"
| "poll_shots self (table # tables) =
     (case read_shot_data self table of
        (result, self1) \<Rightarrow>
          (case poll_shots self1 tables of
             (results, self2) \<Rightarrow> (result # results, self2)))"

text \<open>The observations among the results of a sequence of polls.\<close>

definition returned :: "ShotObservation option list \<Rightarrow> ShotObservation list" where
  "returned results = concat (map (\<lambda>r. case r of None \<Rightarrow> [] | Some obs \<Rightarrow> [obs]) results)"

section \<open>Rounding and clamping\<close>

lemma round_half_even_of_int: "round_half_even (of_int k) = k"
  by (simp add: round_half_even_def)

lemma round_half_even_cases:
  "round_half_even x = \<lfloor>x\<rfloor> \<or> round_half_even x = \<lfloor>x\<rfloor> + 1"
  by (simp add: round_half_even_def Let_def)

text \<open>Rounding half to even is monotone: inside one unit interval by the three cases of the
  definition, across intervals because the result stays next to the floor.\<close>

lemma round_half_even_mono:
  assumes "x \<le> y"
  shows "round_half_even x \<le> round_half_even y"
proof (cases "\<lfloor>x\<rfloor> = \<lfloor>y\<rfloor>")
  case True
  have "x - of_int \<lfloor>x\<rfloor> \<le> y - of_int \<lfloor>y\<rfloor>"
    using assms True by simp
  then show ?thesis
    using True by (auto simp: round_half_even_def Let_def)
next
  case False
  have "\<lfloor>x\<rfloor> \<le> \<lfloor>y\<rfloor>" using assms by (rule floor_mono)
  with False have "\<lfloor>x\<rfloor> + 1 \<le> \<lfloor>y\<rfloor>" by simp
  moreover have "round_half_even x \<le> \<lfloor>x\<rfloor> + 1"
    using round_half_even_cases [of x] by auto
  moreover have "\<lfloor>y\<rfloor> \<le> round_half_even y"
    using round_half_even_cases [of y] by auto
  ultimately show ?thesis by linarith
qed

text \<open>With finite bounds in order, the clamped value is finite and inside the bounds, whatever
  the argument is (a NaN argument yields the upper bound).\<close>

lemma clamped_finite:
  assumes "lo \<le> hi"
  shows "\<exists>x. py_max2 (Fin lo) (py_min2 (Fin hi) v) = Fin x \<and> lo \<le> x \<and> x \<le> hi"
  using assms by (cases v) (auto simp: py_max2_def py_min2_def)

lemma clamped_Fin:
  "py_max2 (Fin lo) (py_min2 (Fin hi) (Fin x)) = Fin (max lo (min hi x))"
  by (auto simp: py_max2_def py_min2_def max_def min_def)

text \<open>
  What \<open>clamp\<close> does with \<open>is_integer\<close> set and \<open>min_value \<le> max_value\<close>: it never
  raises and returns an int between the rounded bounds \<open>round(min_value)\<close> and
  \<open>round(max_value)\<close>. The int is within \<open>[min_value, max_value]\<close> when both bounds are
  whole numbers; otherwise the rounding, which comes after the clamping, can leave the
  interval.
\<close>

lemma clamp_integer_rounded_bounds:
  assumes "min_value c \<le> max_value c" and "is_integer c"
  shows "\<exists>n. clamp c v = Inr (PyInt n)
           \<and> round_half_even (min_value c) \<le> n \<and> n \<le> round_half_even (max_value c)
           \<and> (min_value c \<in> \<int> \<and> max_value c \<in> \<int> \<longrightarrow>
                in_bounds (min_value c) (max_value c) (PyInt n))"
proof -
  obtain x where x: "py_max2 (Fin (min_value c)) (py_min2 (Fin (max_value c)) v) = Fin x"
      "min_value c \<le> x" "x \<le> max_value c"
    using clamped_finite [OF assms(1)] by blast
  let ?n = "round_half_even x"
  have c: "clamp c v = Inr (PyInt ?n)"
    using x(1) assms(2) by (simp add: clamp_def)
  have lo: "round_half_even (min_value c) \<le> ?n"
    using x(2) by (rule round_half_even_mono)
  have hi: "?n \<le> round_half_even (max_value c)"
    using x(3) by (rule round_half_even_mono)
  have "in_bounds (min_value c) (max_value c) (PyInt ?n)"
    if "min_value c \<in> \<int>" "max_value c \<in> \<int>"
  proof -
    from that obtain a b where ab: "min_value c = of_int a" "max_value c = of_int b"
      by (auto elim!: Ints_cases)
    from lo hi show ?thesis
      by (simp add: ab round_half_even_of_int)
  qed
  with c lo hi show ?thesis by blast
qed

text \<open>
  Claim C4. With \<open>min_value \<le> max_value\<close> and \<open>is_integer\<close> unset, \<open>clamp\<close> applied to a
  finite value \<open>y\<close> returns \<open>max(min_value, min(max_value, y))\<close>, and applied to any
  argument at all (finite, infinite or NaN) it returns a float within
  \<open>[min_value, max_value]\<close>.
\<close>

theorem clamp_float_in_bounds:
  assumes "min_value c \<le> max_value c" and "\<not> is_integer c"
  shows "clamp c (Fin y) = Inr (PyFloat (Fin (max (min_value c) (min (max_value c) y))))
         \<and> (\<exists>x. clamp c v = Inr (PyFloat (Fin x)) \<and> min_value c \<le> x \<and> x \<le> max_value c)"
proof -
  obtain x where x: "py_max2 (Fin (min_value c)) (py_min2 (Fin (max_value c)) v) = Fin x"
      "min_value c \<le> x" "x \<le> max_value c"
    using clamped_finite [OF assms(1)] by blast
  have "clamp c (Fin y) = Inr (PyFloat (Fin (max (min_value c) (min (max_value c) y))))"
    using assms(2) by (simp add: clamp_def clamped_Fin)
  moreover have "clamp c v = Inr (PyFloat (Fin x))"
    using x(1) assms(2) by (simp add: clamp_def)
  ultimately show ?thesis using x(2,3) by blast
qed

text \<open>The theorem at a float coefficient with bounds 0 and 90, for 1000 and for NaN.\<close>

theorem clamp_float_in_bounds_witness:
  "min_value (sample_coefficient 0 90 False) \<le> max_value (sample_coefficient 0 90 False)
   \<and> \<not> is_integer (sample_coefficient 0 90 False)
   \<and> clamp (sample_coefficient 0 90 False) (Fin 1000) = Inr (PyFloat (Fin 90))
   \<and> (\<exists>x. clamp (sample_coefficient 0 90 False) NaN = Inr (PyFloat (Fin x))
          \<and> 0 \<le> x \<and> x \<le> 90)"
proof -
  let ?c = "sample_coefficient 0 90 False"
  have h: "min_value ?c \<le> max_value ?c" "\<not> is_integer ?c"
    by (simp_all add: sample_coefficient_def)
  from clamp_float_in_bounds [OF h, of 1000 NaN] h show ?thesis
    by (simp add: sample_coefficient_def)
qed

section \<open>Policy resolution\<close>

text \<open>
  Claim C3. With \<open>force_global = True\<close>, \<open>get_effective_autotune_settings\<close> returns the
  global pair \<open>(global_enabled, global_threshold)\<close>, whatever the coefficient's own
  \<open>autotune_override\<close>, \<open>autotune_enabled\<close> and \<open>autotune_shot_threshold\<close> are.
\<close>

theorem force_global_returns_global:
  "get_effective_autotune_settings c global_enabled global_threshold True
     = (global_enabled, global_threshold)"
  by (simp add: get_effective_autotune_settings_def)

text \<open>
  Claim C6. Both resolutions are the specification's
  \<open>force_global ? global : (override_present ? local : global)\<close>, each on its own fields,
  and they are one function up to the renaming of the fields: the auto-advance resolution
  of a coefficient whose auto-advance fields hold the autotune fields is the autotune
  resolution.
\<close>

theorem policy_resolutions_same_shape:
  "get_effective_autotune_settings c g t f
     = spec_effective f (autotune_override c)
         (autotune_enabled c, autotune_shot_threshold c) (g, t)
   \<and> get_effective_auto_advance_settings c g t f
     = spec_effective f (auto_advance_override c)
         (auto_advance_on_success c, auto_advance_shot_threshold c) (g, t)
   \<and> get_effective_auto_advance_settings
       (c\<lparr> auto_advance_override := autotune_override c,
           auto_advance_on_success := autotune_enabled c,
           auto_advance_shot_threshold := autotune_shot_threshold c \<rparr>) g t f
     = get_effective_autotune_settings c g t f"
  by (simp add: get_effective_autotune_settings_def get_effective_auto_advance_settings_def
      spec_effective_def)

section \<open>The dashboard clamp\<close>

lemma clamped_finite_dashboard:
  assumes "lo \<le> hi"
  shows "\<exists>x. py_max2 (Fin lo) (py_min2 v (Fin hi)) = Fin x \<and> lo \<le> x \<and> x \<le> hi"
  using assms by (cases v) (auto simp: py_max2_def py_min2_def)

lemma clamped_Fin_dashboard:
  "py_max2 (Fin lo) (py_min2 (Fin x) (Fin hi)) = Fin (max lo (min x hi))"
  by (auto simp: py_max2_def py_min2_def max_def min_def)

lemma COEFFICIENT_CONFIG_ordered:
  "map_of COEFFICIENT_CONFIG nm = Some entry \<Longrightarrow> min_entry entry \<le> max_entry entry"
  by (auto simp: COEFFICIENT_CONFIG_def split: if_splits)

text \<open>
  Claim C10. For a name that \<open>COEFFICIENT_CONFIG\<close> defines, \<open>clamp_coefficient_value\<close>
  returns a finite value \<open>y\<close> clamped to the entry's bounds and returns a value within
  those bounds for any argument; for a name it does not define, the same holds with the
  fallback bounds 0 and 100.
\<close>

theorem clamp_coefficient_value_clamps:
  "(map_of COEFFICIENT_CONFIG nm = Some entry \<longrightarrow>
      clamp_coefficient_value (Fin y) nm = Fin (max (min_entry entry) (min y (max_entry entry)))
      \<and> (\<exists>x. clamp_coefficient_value v nm = Fin x \<and> min_entry entry \<le> x \<and> x \<le> max_entry entry))
   \<and> (map_of COEFFICIENT_CONFIG nm = None \<longrightarrow>
      clamp_coefficient_value (Fin y) nm = Fin (max 0 (min y 100))
      \<and> (\<exists>x. clamp_coefficient_value v nm = Fin x \<and> 0 \<le> x \<and> x \<le> 100))"
proof (intro conjI impI)
  assume e: "map_of COEFFICIENT_CONFIG nm = Some entry"
  show "clamp_coefficient_value (Fin y) nm = Fin (max (min_entry entry) (min y (max_entry entry)))"
    using e by (simp add: clamp_coefficient_value_def clamped_Fin_dashboard)
  show "\<exists>x. clamp_coefficient_value v nm = Fin x \<and> min_entry entry \<le> x \<and> x \<le> max_entry entry"
    using e clamped_finite_dashboard [OF COEFFICIENT_CONFIG_ordered [OF e], of v]
    by (simp add: clamp_coefficient_value_def)
next
  assume e: "map_of COEFFICIENT_CONFIG nm = None"
  show "clamp_coefficient_value (Fin y) nm = Fin (max 0 (min y 100))"
    using e by (simp add: clamp_coefficient_value_def clamped_Fin_dashboard)
  show "\<exists>x. clamp_coefficient_value v nm = Fin x \<and> 0 \<le> x \<and> x \<le> 100"
    using e clamped_finite_dashboard [of 0 100 v]
    by (simp add: clamp_coefficient_value_def)
qed

theorem clamp_coefficient_value_clamps_witness:
  "map_of COEFFICIENT_CONFIG ''kGravity''
     = Some \<lparr>step_entry = Some (1 / 100), min_entry = 9, max_entry = 10\<rparr>
   \<and> clamp_coefficient_value (Fin 12) ''kGravity'' = Fin 10
   \<and> map_of COEFFICIENT_CONFIG ''kUnknown'' = None
   \<and> clamp_coefficient_value (Fin 250) ''kUnknown'' = Fin 100"
proof -
  have a: "map_of COEFFICIENT_CONFIG ''kGravity''
     = Some \<lparr>step_entry = Some (1 / 100), min_entry = 9, max_entry = 10\<rparr>"
    by (simp add: COEFFICIENT_CONFIG_def)
  have b: "map_of COEFFICIENT_CONFIG ''kUnknown'' = None"
    by (simp add: COEFFICIENT_CONFIG_def)
  from clamp_coefficient_value_clamps
         [of "''kGravity''" "\<lparr>step_entry = Some (1 / 100), min_entry = 9, max_entry = 10\<rparr>" 12 NaN] a
  have c: "clamp_coefficient_value (Fin 12) ''kGravity'' = Fin 10"
    by simp
  from clamp_coefficient_value_clamps [of "''kUnknown''" "\<lparr>step_entry = None, min_entry = 0, max_entry = 100\<rparr>" 250 NaN] b
  have d: "clamp_coefficient_value (Fin 250) ''kUnknown'' = Fin 100"
    by simp
  from a b c d show ?thesis by blast
qed

section \<open>Shot recording in the dashboard\<close>

text \<open>
  Claim C9. Every invocation of \<open>handle_shot_recording\<close> with a trigger sets
  \<open>shot_count\<close> to its old value (0 when absent) plus one, sets \<open>total_hits\<close> to its old
  value plus one when the hit button triggered it and leaves it as it is otherwise, and
  sets \<open>success_rate\<close> to the new \<open>total_hits\<close> over the new \<open>shot_count\<close> when the new
  count is positive and to 0 otherwise. So from every state with \<open>0 \<le> shot_count\<close>,
  which includes the state after the reset button (count 0, hits kept), the new
  \<open>success_rate\<close> is \<open>total_hits / shot_count\<close>; and from every state with
  \<open>0 \<le> total_hits \<le> shot_count\<close> the new state has \<open>0 \<le> total_hits \<le> shot_count\<close> and
  \<open>0 \<le> success_rate \<le> 1\<close>.
\<close>

theorem handle_shot_recording_counts:
  "(let state' = handle_shot_recording (prop_id # others) state;
        hit = (takeWhile (\<lambda>ch. ch \<noteq> CHR ''.'') prop_id = ''record-hit-btn'')
    in shot_count state' = Some (dict_get (shot_count state) 0 + 1)
     \<and> (if hit then total_hits state' = Some (dict_get (total_hits state) 0 + 1)
         else total_hits state' = total_hits state)
     \<and> success_rate state' =
         Some (if 0 < dict_get (shot_count state') 0
               then of_int (dict_get (total_hits state') 0)
                      / of_int (dict_get (shot_count state') 0)
               else 0)
     \<and> (0 \<le> dict_get (shot_count state) 0 \<longrightarrow>
          success_rate state' =
            Some (of_int (dict_get (total_hits state') 0)
                    / of_int (dict_get (shot_count state') 0)))
     \<and> (0 \<le> dict_get (total_hits state) 0
          \<and> dict_get (total_hits state) 0 \<le> dict_get (shot_count state) 0 \<longrightarrow>
          0 \<le> dict_get (total_hits state') 0
          \<and> dict_get (total_hits state') 0 \<le> dict_get (shot_count state') 0
          \<and> 0 \<le> dict_get (success_rate state') 0
          \<and> dict_get (success_rate state') 0 \<le> 1))"
  by (auto simp: handle_shot_recording_def Let_def dict_get_def split: option.splits)

theorem handle_shot_recording_counts_witness:
  "(0::int) \<le> dict_get (Some 1) 0 \<and> dict_get (Some 1) (0::int) \<le> dict_get (Some 3) 0
   \<and> shot_count (handle_shot_recording [''record-hit-btn.n_clicks'']
      \<lparr>shot_count = Some 3, total_hits = Some 1, success_rate = Some (1 / 3)\<rparr>) = Some 4
   \<and> total_hits (handle_shot_recording [''record-hit-btn.n_clicks'']
      \<lparr>shot_count = Some 3, total_hits = Some 1, success_rate = Some (1 / 3)\<rparr>) = Some 2
   \<and> success_rate (handle_shot_recording [''record-hit-btn.n_clicks'']
      \<lparr>shot_count = Some 3, total_hits = Some 1, success_rate = Some (1 / 3)\<rparr>) = Some (1 / 2)
   \<and> (0::int) \<le> dict_get (Some 0) 0
   \<and> success_rate (handle_shot_recording [''record-miss-btn.n_clicks'']
      \<lparr>shot_count = Some 0, total_hits = Some 5, success_rate = Some 0\<rparr>) = Some 5"
  using handle_shot_recording_counts [of "''record-hit-btn.n_clicks''" "[]"
      "\<lparr>shot_count = Some 3, total_hits = Some 1, success_rate = Some (1 / 3)\<rparr>"]
    handle_shot_recording_counts [of "''record-miss-btn.n_clicks''" "[]"
      "\<lparr>shot_count = Some 0, total_hits = Some 5, success_rate = Some 0\<rparr>"]
  by (simp add: Let_def dict_get_def)

section \<open>Shot polling\<close>

lemma read_shot_data_Some:
  "read_shot_data self table = (Some obs, self') \<Longrightarrow>
     shot_timestamp_key table = Some (timestamp obs)
     \<and> last_shot_timestamp self < timestamp obs
     \<and> last_shot_timestamp self' = timestamp obs"
  by (auto simp: read_shot_data_def split: option.splits if_splits)

lemma read_shot_data_None:
  "read_shot_data self table = (None, self') \<Longrightarrow> self' = self"
  by (auto simp: read_shot_data_def split: option.splits if_splits)

lemma read_shot_data_repeat:
  "shot_timestamp_key table' = shot_timestamp_key table \<Longrightarrow>
     fst (read_shot_data (snd (read_shot_data self table)) table') = None"
  by (auto simp: read_shot_data_def split: option.splits if_splits)

lemma poll_shots_increasing:
  "sorted_wrt (<) (last_shot_timestamp self # map timestamp (returned (fst (poll_shots self tables))))"
proof (induction tables arbitrary: self)
  case Nil
  show ?case by (simp add: returned_def)
next
  case (Cons table tables)
  obtain result self1 where r: "read_shot_data self table = (result, self1)"
    by (cases "read_shot_data self table")
  obtain results self2 where p: "poll_shots self1 tables = (results, self2)"
    by (cases "poll_shots self1 tables")
  have ih: "sorted_wrt (<) (last_shot_timestamp self1 # map timestamp (returned results))"
    using Cons.IH [of self1] p by simp
  show ?case
  proof (cases result)
    case None
    with r have "self1 = self" by (simp add: read_shot_data_None)
    with ih r p None show ?thesis by (simp add: returned_def)
  next
    case (Some obs)
    with r have s: "last_shot_timestamp self < timestamp obs"
        "last_shot_timestamp self1 = timestamp obs"
      using read_shot_data_Some [of self table obs self1] by simp_all
    have "\<forall>y\<in>set (map timestamp (returned results)). last_shot_timestamp self < y"
      using ih s by auto
    with ih s r p Some show ?thesis by (simp add: returned_def)
  qed
qed

text \<open>
  Claim C7. \<open>read_shot_data\<close> returns an observation only when the timestamp key holds a
  timestamp strictly greater than the one the interface remembers, which is the timestamp
  of the observation it returned last, and it then remembers the new one; when it returns
  None the interface is unchanged. A second call that finds the same timestamp key returns
  None. So in every sequence of polls the timestamps of the returned observations increase
  strictly, starting above the timestamp remembered at the start.
\<close>

theorem read_shot_data_monotonic:
  "(read_shot_data self table = (Some obs, self') \<longrightarrow>
      shot_timestamp_key table = Some (timestamp obs)
      \<and> last_shot_timestamp self < timestamp obs
      \<and> last_shot_timestamp self' = timestamp obs)
   \<and> (read_shot_data self table = (None, self') \<longrightarrow> self' = self)
   \<and> (shot_timestamp_key table' = shot_timestamp_key table \<longrightarrow>
        fst (read_shot_data (snd (read_shot_data self table)) table') = None)
   \<and> sorted_wrt (<)
        (last_shot_timestamp self # map timestamp (returned (fst (poll_shots self tables))))"
  using read_shot_data_Some [of self table obs self'] read_shot_data_None [of self table self']
    read_shot_data_repeat [of table' table self] poll_shots_increasing [of self tables]
  by blast

theorem read_shot_data_monotonic_witness:
  "read_shot_data \<lparr>last_shot_timestamp = 0\<rparr>
       \<lparr>shot_timestamp_key = Some 5, hit_key = True, distance_key = 4, exit_velocity_key = 12\<rparr>
     = (Some \<lparr>hit = True, distance = 4, exit_velocity = 12, timestamp = 5\<rparr>,
        \<lparr>last_shot_timestamp = 5\<rparr>)
   \<and> (0::rat) < 5
   \<and> fst (read_shot_data \<lparr>last_shot_timestamp = 5\<rparr>
       \<lparr>shot_timestamp_key = Some 5, hit_key = True, distance_key = 4, exit_velocity_key = 12\<rparr>)
     = None"
proof -
  let ?t = "\<lparr>shot_timestamp_key = Some 5, hit_key = True, distance_key = 4, exit_velocity_key = 12\<rparr>"
  let ?o = "\<lparr>hit = True, distance = 4, exit_velocity = 12, timestamp = 5\<rparr>"
  have r: "read_shot_data \<lparr>last_shot_timestamp = 0\<rparr> ?t = (Some ?o, \<lparr>last_shot_timestamp = 5\<rparr>)"
    by (simp add: read_shot_data_def)
  from read_shot_data_monotonic
         [of "\<lparr>last_shot_timestamp = 0\<rparr>" ?t ?o "\<lparr>last_shot_timestamp = 5\<rparr>" ?t "[]"] r
  show ?thesis by simp
qed

section \<open>The robot address\<close>

lemma str_nat_one_digit: "n < 10 \<Longrightarrow> str_nat n = [digit_char n]"
  by (simp add: str_nat.simps)

lemma str_nat_two_digits:
  "10 \<le> n \<Longrightarrow> n < 100 \<Longrightarrow> str_nat n = [digit_char (n div 10), digit_char (n mod 10)]"
  by (subst str_nat.simps) (simp add: str_nat_one_digit)

lemma str_nat_three_digits:
  "100 \<le> n \<Longrightarrow> n < 1000 \<Longrightarrow>
     str_nat n = [digit_char (n div 100), digit_char (n div 10 mod 10), digit_char (n mod 10)]"
  by (subst str_nat.simps) (simp add: str_nat_two_digits div_mult2_eq [symmetric])

lemma str_nat_four_digits:
  "1000 \<le> n \<Longrightarrow> n < 10000 \<Longrightarrow>
     str_nat n = [digit_char (n div 1000), digit_char (n div 100 mod 10),
                  digit_char (n div 10 mod 10), digit_char (n mod 10)]"
  by (subst str_nat.simps) (simp add: str_nat_three_digits div_mult2_eq [symmetric])

lemma py_str_int: "py_str (int k) = str_nat k"
  by (simp add: py_str_def)

lemma digits_of_mod_100:
  "(n::nat) mod 100 div 10 = n div 10 mod 10" "n mod 100 mod 10 = n mod 10"
proof -
  have "n mod (10 * 10) = 10 * (n div 10 mod 10) + n mod 10"
    by (rule mod_mult2_eq)
  then have e: "n mod 100 = 10 * (n div 10 mod 10) + n mod 10"
    by simp
  show "n mod 100 div 10 = n div 10 mod 10"
    by (simp add: e)
  show "n mod 100 mod 10 = n mod 10"
    by (simp add: e)
qed

lemma server_ip_agree:
  assumes "1000 \<le> t" "t \<le> 9999" "10 \<le> t mod 100"
  shows "daemon_server_ip t = Some (load_toggles_server_ip t)"
proof -
  define n where "n = nat t"
  have t: "t = int n" using assms by (simp add: n_def)
  have d: "t div 100 = int (n div 100)" by (simp add: t zdiv_int)
  have m: "t mod 100 = int (n mod 100)" by (simp add: t zmod_int)
  have n: "1000 \<le> n" "n < 10000" "10 \<le> n mod 100"
    using assms m by (simp_all add: n_def)
  have hi: "10 \<le> n div 100" "n div 100 < 100" using n by simp_all
  have lo: "n mod 100 < 100" by simp
  have a: "py_str t = [digit_char (n div 1000), digit_char (n div 100 mod 10),
                  digit_char (n div 10 mod 10), digit_char (n mod 10)]"
    using n by (simp add: t py_str_int str_nat_four_digits)
  have b: "py_str (t div 100) = [digit_char (n div 1000), digit_char (n div 100 mod 10)]"
    using str_nat_two_digits [OF hi]
    by (simp add: d py_str_int div_mult2_eq [symmetric])
  have c: "py_str (t mod 100) = [digit_char (n div 10 mod 10), digit_char (n mod 10)]"
    using str_nat_two_digits [OF n(3) lo]
    by (simp add: m py_str_int digits_of_mod_100)
  show ?thesis
    using assms by (simp add: daemon_server_ip_def load_toggles_server_ip_def a b c zfill_def)
qed

lemma length_str_nat_small: "n < 10 \<Longrightarrow> length (str_nat n) = 1"
  by (simp add: str_nat_one_digit)

lemma length_str_nat_le2: "n < 100 \<Longrightarrow> length (str_nat n) \<le> 2"
  by (cases "n < 10") (simp_all add: str_nat_one_digit str_nat_two_digits)

lemma length_zfill: "length (zfill w s) = max w (length s)"
  by (auto simp: zfill_def split: list.splits)

lemma server_ip_differ:
  assumes "1 \<le> t" "t \<le> 9999" "t < 1000 \<or> t mod 100 < 10"
  shows "daemon_server_ip t \<noteq> Some (load_toggles_server_ip t)"
proof -
  define n where "n = nat t"
  have t: "t = int n" using assms by (simp add: n_def)
  have d: "t div 100 = int (n div 100)" by (simp add: t zdiv_int)
  have m: "t mod 100 = int (n mod 100)" by (simp add: t zmod_int)
  have n: "n < 10000" "n div 100 < 10 \<or> n mod 100 < 10"
    using assms m by (auto simp: n_def)
  have l4: "length (str_nat n) \<le> 4"
  proof -
    consider "n < 10" | "10 \<le> n" "n < 100" | "100 \<le> n" "n < 1000" | "1000 \<le> n"
      by linarith
    then show ?thesis
      using n(1)
      by cases (simp_all add: str_nat_one_digit str_nat_two_digits str_nat_three_digits
          str_nat_four_digits)
  qed
  have "length (the (daemon_server_ip t)) = 10"
    using assms l4 by (simp add: daemon_server_ip_def Let_def length_zfill t py_str_int)
  moreover have "length (load_toggles_server_ip t) < 10"
  proof -
    have "n div 100 < 100" "n mod 100 < 100" using n(1) by simp_all
    then have "length (str_nat (n div 100)) \<le> 2" "length (str_nat (n mod 100)) \<le> 2"
      by (simp_all add: length_str_nat_le2)
    moreover have "length (str_nat (n div 100)) = 1 \<or> length (str_nat (n mod 100)) = 1"
      using n(2) by (auto simp: length_str_nat_small)
    ultimately show ?thesis
      by (auto simp: load_toggles_server_ip_def d m py_str_int)
  qed
  ultimately show ?thesis
    using assms by (auto simp: daemon_server_ip_def)
qed

text \<open>
  Claim C8 at team number 254, which lies in the claimed range: \<open>_load_toggles\<close> computes
  10.2.54.2 and the daemon computes 10.02.54.2, so the two strings differ.
\<close>

theorem server_ip_team_254:
  "load_toggles_server_ip 254 = ''10.2.54.2''
   \<and> daemon_server_ip 254 = Some ''10.02.54.2''
   \<and> daemon_server_ip 254 \<noteq> Some (load_toggles_server_ip 254)"
  by code_simp

section \<open>Configuration validation\<close>

text \<open>Distinct warnings have distinct texts: the texts differ in their endings, so the
  reversed texts differ within their literal prefixes.\<close>

lemma warning_message_inject:
  assumes "warning_message a = warning_message b"
  shows "a = b"
proof -
  have r: "rev (warning_message a) = rev (warning_message b)"
    using assms by simp
  show ?thesis
    using r by (cases a; cases b; simp)
qed

text \<open>Counting in filtered, mapped and concatenated lists; a dict with distinct keys
  contributes the entry of a key once.\<close>

lemma count_list_map_inj: "inj f \<Longrightarrow> count_list (map f xs) (f x) = count_list xs x"
  by (induction xs) (auto dest: injD)

lemma count_list_filter_eq:
  "count_list (filter P xs) x = (if P x then count_list xs x else 0)"
  by (induction xs) auto

lemma count_list_absent: "x \<notin> set xs \<Longrightarrow> count_list xs x = 0"
  by (simp add: count_list_0_iff)

lemma count_list_keys:
  assumes "distinct (map fst xs)"
  shows "count_list (map fst (filter Q xs)) k =
           (case map_of xs k of None \<Rightarrow> 0 | Some v \<Rightarrow> if Q (k, v) then 1 else 0)"
  using assms
proof (induction xs)
  case Nil
  show ?case by simp
next
  case (Cons p xs)
  obtain k' v' where p: "p = (k', v')" by (cases p)
  show ?case
  proof (cases "k' = k")
    case True
    with Cons.prems p have "k \<notin> fst ` set xs" by auto
    then have n: "map_of xs k = None" by (simp add: map_of_eq_None_iff)
    with Cons True p show ?thesis by simp
  next
    case False
    with Cons p show ?thesis by simp
  qed
qed

lemma count_list_concat_alist:
  assumes "distinct (map fst xs)"
    and "\<And>k v. count_list (g (k, v)) w = (if k = nm then h v else 0)"
  shows "count_list (concat (map g xs)) w =
           (case map_of xs nm of None \<Rightarrow> 0 | Some v \<Rightarrow> h v)"
  using assms(1)
proof (induction xs)
  case Nil
  show ?case by simp
next
  case (Cons p xs)
  obtain k' v' where p: "p = (k', v')" by (cases p)
  show ?case
  proof (cases "k' = nm")
    case True
    with Cons.prems p have "nm \<notin> fst ` set xs" by auto
    then have n: "map_of xs nm = None" by (simp add: map_of_eq_None_iff)
    with Cons True p show ?thesis by (simp add: assms(2))
  next
    case False
    with Cons p show ?thesis by (simp add: assms(2))
  qed
qed

lemma order_warnings_kind:
  "w \<in> set (order_warnings cfg) \<Longrightarrow> \<exists>n. w = EnabledNotInOrder n"
  by (auto simp: order_warnings_def)

lemma undefined_warnings_kind:
  "w \<in> set (undefined_warnings cfg) \<Longrightarrow> \<exists>n. w = OrderNotDefined n"
  by (auto simp: undefined_warnings_def)

lemma coefficient_warnings_kind:
  "w \<in> set (concat (map coefficient_warnings xs)) \<Longrightarrow>
     \<exists>n. w = MinNotBelowMax n \<or> w = DefaultOutsideRange n
        \<or> w = StepNotPositive n \<or> w = DecayOutsideRange n"
  by (auto simp: coefficient_warnings_def split: if_splits)

lemma system_warnings_kind:
  "w \<in> set (system_warnings cfg) \<Longrightarrow>
     w \<in> {VelocityLimits, AngleLimits, DistanceLimits, InitialPoints,
          CallsBelowInitialPoints, UpdateRate, WriteRate, ReadRate}"
  by (auto simp: system_warnings_def split: if_splits)

lemma count_order_warnings:
  assumes "distinct (map fst (COEFFICIENTS cfg))"
  shows "count_list (validate_warnings cfg) (EnabledNotInOrder nm) =
           (case map_of (COEFFICIENTS cfg) nm of None \<Rightarrow> 0
            | Some c \<Rightarrow> if enabled c \<and> nm \<notin> set (TUNING_ORDER cfg) then 1 else 0)"
proof -
  have a: "count_list (order_warnings cfg) (EnabledNotInOrder nm) =
           (case map_of (COEFFICIENTS cfg) nm of None \<Rightarrow> 0
            | Some c \<Rightarrow> if enabled c \<and> nm \<notin> set (TUNING_ORDER cfg) then 1 else 0)"
    unfolding order_warnings_def Let_def
    by (simp add: count_list_map_inj inj_def count_list_filter_eq count_list_keys [OF assms]
        split: option.splits)
  have b: "count_list (undefined_warnings cfg) (EnabledNotInOrder nm) = 0"
    by (rule count_list_absent) (blast dest: undefined_warnings_kind)
  have c: "count_list (concat (map coefficient_warnings (COEFFICIENTS cfg)))
             (EnabledNotInOrder nm) = 0"
    by (rule count_list_absent) (blast dest: coefficient_warnings_kind)
  have d: "count_list (system_warnings cfg) (EnabledNotInOrder nm) = 0"
    by (rule count_list_absent) (blast dest: system_warnings_kind)
  show ?thesis
    by (simp add: validate_warnings_def a b c d)
qed

lemma count_undefined_warnings:
  "count_list (validate_warnings cfg) (OrderNotDefined nm) =
     (if map_of (COEFFICIENTS cfg) nm = None then count_list (TUNING_ORDER cfg) nm else 0)"
proof -
  have a: "count_list (order_warnings cfg) (OrderNotDefined nm) = 0"
    by (rule count_list_absent) (blast dest: order_warnings_kind)
  have b: "count_list (undefined_warnings cfg) (OrderNotDefined nm) =
     (if map_of (COEFFICIENTS cfg) nm = None then count_list (TUNING_ORDER cfg) nm else 0)"
    unfolding undefined_warnings_def
    by (simp add: count_list_map_inj inj_def count_list_filter_eq)
  have c: "count_list (concat (map coefficient_warnings (COEFFICIENTS cfg)))
             (OrderNotDefined nm) = 0"
    by (rule count_list_absent) (blast dest: coefficient_warnings_kind)
  have d: "count_list (system_warnings cfg) (OrderNotDefined nm) = 0"
    by (rule count_list_absent) (blast dest: system_warnings_kind)
  show ?thesis
    by (simp add: validate_warnings_def a b c d)
qed

lemma count_min_warnings:
  assumes "distinct (map fst (COEFFICIENTS cfg))"
  shows "count_list (validate_warnings cfg) (MinNotBelowMax nm) =
           (case map_of (COEFFICIENTS cfg) nm of None \<Rightarrow> 0
            | Some c \<Rightarrow> if min_value c \<ge> max_value c then 1 else 0)"
proof -
  have a: "count_list (order_warnings cfg) (MinNotBelowMax nm) = 0"
    by (rule count_list_absent) (blast dest: order_warnings_kind)
  have b: "count_list (undefined_warnings cfg) (MinNotBelowMax nm) = 0"
    by (rule count_list_absent) (blast dest: undefined_warnings_kind)
  have c: "count_list (concat (map coefficient_warnings (COEFFICIENTS cfg))) (MinNotBelowMax nm) =
           (case map_of (COEFFICIENTS cfg) nm of None \<Rightarrow> 0
            | Some c \<Rightarrow> if min_value c \<ge> max_value c then 1 else 0)"
    by (rule count_list_concat_alist [OF assms]) (simp add: coefficient_warnings_def)
  have d: "count_list (system_warnings cfg) (MinNotBelowMax nm) = 0"
    by (rule count_list_absent) (blast dest: system_warnings_kind)
  show ?thesis
    by (simp add: validate_warnings_def a b c d)
qed

lemma count_default_warnings:
  assumes "distinct (map fst (COEFFICIENTS cfg))"
  shows "count_list (validate_warnings cfg) (DefaultOutsideRange nm) =
           (case map_of (COEFFICIENTS cfg) nm of None \<Rightarrow> 0
            | Some c \<Rightarrow> if default_value c < min_value c \<or> default_value c > max_value c then 1 else 0)"
proof -
  have a: "count_list (order_warnings cfg) (DefaultOutsideRange nm) = 0"
    by (rule count_list_absent) (blast dest: order_warnings_kind)
  have b: "count_list (undefined_warnings cfg) (DefaultOutsideRange nm) = 0"
    by (rule count_list_absent) (blast dest: undefined_warnings_kind)
  have c: "count_list (concat (map coefficient_warnings (COEFFICIENTS cfg))) (DefaultOutsideRange nm) =
           (case map_of (COEFFICIENTS cfg) nm of None \<Rightarrow> 0
            | Some c \<Rightarrow> if default_value c < min_value c \<or> default_value c > max_value c then 1 else 0)"
    by (rule count_list_concat_alist [OF assms]) (simp add: coefficient_warnings_def)
  have d: "count_list (system_warnings cfg) (DefaultOutsideRange nm) = 0"
    by (rule count_list_absent) (blast dest: system_warnings_kind)
  show ?thesis
    by (simp add: validate_warnings_def a b c d)
qed

lemma count_step_warnings:
  assumes "distinct (map fst (COEFFICIENTS cfg))"
  shows "count_list (validate_warnings cfg) (StepNotPositive nm) =
           (case map_of (COEFFICIENTS cfg) nm of None \<Rightarrow> 0
            | Some c \<Rightarrow> if initial_step_size c \<le> 0 then 1 else 0)"
proof -
  have a: "count_list (order_warnings cfg) (StepNotPositive nm) = 0"
    by (rule count_list_absent) (blast dest: order_warnings_kind)
  have b: "count_list (undefined_warnings cfg) (StepNotPositive nm) = 0"
    by (rule count_list_absent) (blast dest: undefined_warnings_kind)
  have c: "count_list (concat (map coefficient_warnings (COEFFICIENTS cfg))) (StepNotPositive nm) =
           (case map_of (COEFFICIENTS cfg) nm of None \<Rightarrow> 0
            | Some c \<Rightarrow> if initial_step_size c \<le> 0 then 1 else 0)"
    by (rule count_list_concat_alist [OF assms]) (simp add: coefficient_warnings_def)
  have d: "count_list (system_warnings cfg) (StepNotPositive nm) = 0"
    by (rule count_list_absent) (blast dest: system_warnings_kind)
  show ?thesis
    by (simp add: validate_warnings_def a b c d)
qed

lemma count_decay_warnings:
  assumes "distinct (map fst (COEFFICIENTS cfg))"
  shows "count_list (validate_warnings cfg) (DecayOutsideRange nm) =
           (case map_of (COEFFICIENTS cfg) nm of None \<Rightarrow> 0
            | Some c \<Rightarrow> if \<not> (0 < step_decay_rate c \<and> step_decay_rate c \<le> 1) then 1 else 0)"
proof -
  have a: "count_list (order_warnings cfg) (DecayOutsideRange nm) = 0"
    by (rule count_list_absent) (blast dest: order_warnings_kind)
  have b: "count_list (undefined_warnings cfg) (DecayOutsideRange nm) = 0"
    by (rule count_list_absent) (blast dest: undefined_warnings_kind)
  have c: "count_list (concat (map coefficient_warnings (COEFFICIENTS cfg))) (DecayOutsideRange nm) =
           (case map_of (COEFFICIENTS cfg) nm of None \<Rightarrow> 0
            | Some c \<Rightarrow> if \<not> (0 < step_decay_rate c \<and> step_decay_rate c \<le> 1) then 1 else 0)"
    by (rule count_list_concat_alist [OF assms]) (simp add: coefficient_warnings_def)
  have d: "count_list (system_warnings cfg) (DecayOutsideRange nm) = 0"
    by (rule count_list_absent) (blast dest: system_warnings_kind)
  show ?thesis
    by (simp add: validate_warnings_def a b c d)
qed

text \<open>Each part of the warning list is empty exactly when its checks pass.\<close>

lemma order_warnings_empty:
  "order_warnings cfg = [] \<longleftrightarrow>
     (\<forall>(nm, c) \<in> set (COEFFICIENTS cfg). enabled c \<longrightarrow> nm \<in> set (TUNING_ORDER cfg))"
  by (auto simp: order_warnings_def filter_empty_conv)

lemma undefined_warnings_empty:
  "undefined_warnings cfg = [] \<longleftrightarrow>
     (\<forall>nm \<in> set (TUNING_ORDER cfg). map_of (COEFFICIENTS cfg) nm \<noteq> None)"
  by (auto simp: undefined_warnings_def filter_empty_conv)

lemma coefficient_warnings_item_empty:
  "coefficient_warnings (nm, c) = [] \<longleftrightarrow>
     min_value c < max_value c
     \<and> min_value c \<le> default_value c \<and> default_value c \<le> max_value c
     \<and> 0 < initial_step_size c
     \<and> 0 < step_decay_rate c \<and> step_decay_rate c \<le> 1"
  by (simp add: coefficient_warnings_def not_less not_le)

lemma coefficient_warnings_empty:
  "concat (map coefficient_warnings xs) = [] \<longleftrightarrow>
     (\<forall>(nm, c) \<in> set xs.
        min_value c < max_value c
        \<and> min_value c \<le> default_value c \<and> default_value c \<le> max_value c
        \<and> 0 < initial_step_size c
        \<and> 0 < step_decay_rate c \<and> step_decay_rate c \<le> 1)"
proof -
  have "concat (map coefficient_warnings xs) = [] \<longleftrightarrow>
          (\<forall>p \<in> set xs. coefficient_warnings p = [])"
    by simp
  also have "\<dots> \<longleftrightarrow> (\<forall>(nm, c) \<in> set xs. coefficient_warnings (nm, c) = [])"
    by (simp add: split_beta)
  finally show ?thesis
    by (simp only: coefficient_warnings_item_empty)
qed

lemma system_warnings_empty:
  "system_warnings cfg = [] \<longleftrightarrow>
     PHYSICAL_MIN_VELOCITY_MPS cfg < PHYSICAL_MAX_VELOCITY_MPS cfg
     \<and> PHYSICAL_MIN_ANGLE_RAD cfg < PHYSICAL_MAX_ANGLE_RAD cfg
     \<and> PHYSICAL_MIN_DISTANCE_M cfg < PHYSICAL_MAX_DISTANCE_M cfg
     \<and> 1 \<le> N_INITIAL_POINTS cfg
     \<and> N_INITIAL_POINTS cfg \<le> N_CALLS_PER_COEFFICIENT cfg
     \<and> 0 < TUNER_UPDATE_RATE_HZ cfg
     \<and> 0 < MAX_NT_WRITE_RATE_HZ cfg
     \<and> 0 < MAX_NT_READ_RATE_HZ cfg"
  by (simp add: system_warnings_def not_less not_le)

lemma count_validate_config:
  "count_list (validate_config cfg) (warning_message w) = count_list (validate_warnings cfg) w"
  unfolding validate_config_def
  by (rule count_list_map_inj) (auto simp: inj_def dest: warning_message_inject)

lemma validate_config_empty:
  "validate_config cfg = [] \<longleftrightarrow>
     order_warnings cfg = [] \<and> undefined_warnings cfg = []
     \<and> concat (map coefficient_warnings (COEFFICIENTS cfg)) = []
     \<and> system_warnings cfg = []"
  by (simp add: validate_config_def validate_warnings_def)

text \<open>
  Claim C5. \<open>validate_config\<close> is total: it returns a list for every configuration. For
  a dict of coefficients (distinct keys) the list holds, for every name \<open>nm\<close>: the
  missing-from-order warning of \<open>nm\<close> once when \<open>nm\<close> is an enabled coefficient that
  \<open>TUNING_ORDER\<close> does not name, and not otherwise; the not-defined warning of \<open>nm\<close> once
  for each entry \<open>nm\<close> of \<open>TUNING_ORDER\<close> when no coefficient \<open>nm\<close> is defined, and not
  otherwise; and the bounds, default, step-size and decay-rate warning of \<open>nm\<close> once each
  when the coefficient \<open>nm\<close> has \<open>min_value \<ge> max_value\<close>, a \<open>default_value\<close> outside
  \<open>[min_value, max_value]\<close>, an \<open>initial_step_size \<le> 0\<close>, a \<open>step_decay_rate\<close> outside
  \<open>(0, 1]\<close>, and not otherwise. The list is empty exactly when every coefficient
  satisfies these invariants, every name of \<open>TUNING_ORDER\<close> is defined, and the physical
  limits and system parameters are valid.
\<close>

theorem validate_config_reports:
  assumes "distinct (map fst (COEFFICIENTS cfg))"
  shows
   "count_list (validate_config cfg) (warning_message (EnabledNotInOrder nm)) =
      (case map_of (COEFFICIENTS cfg) nm of None \<Rightarrow> 0
       | Some c \<Rightarrow> if enabled c \<and> nm \<notin> set (TUNING_ORDER cfg) then 1 else 0)
    \<and> count_list (validate_config cfg) (warning_message (OrderNotDefined nm)) =
      (if map_of (COEFFICIENTS cfg) nm = None then count_list (TUNING_ORDER cfg) nm else 0)
    \<and> count_list (validate_config cfg) (warning_message (MinNotBelowMax nm)) =
      (case map_of (COEFFICIENTS cfg) nm of None \<Rightarrow> 0
       | Some c \<Rightarrow> if min_value c \<ge> max_value c then 1 else 0)
    \<and> count_list (validate_config cfg) (warning_message (DefaultOutsideRange nm)) =
      (case map_of (COEFFICIENTS cfg) nm of None \<Rightarrow> 0
       | Some c \<Rightarrow> if default_value c < min_value c \<or> default_value c > max_value c
                   then 1 else 0)
    \<and> count_list (validate_config cfg) (warning_message (StepNotPositive nm)) =
      (case map_of (COEFFICIENTS cfg) nm of None \<Rightarrow> 0
       | Some c \<Rightarrow> if initial_step_size c \<le> 0 then 1 else 0)
    \<and> count_list (validate_config cfg) (warning_message (DecayOutsideRange nm)) =
      (case map_of (COEFFICIENTS cfg) nm of None \<Rightarrow> 0
       | Some c \<Rightarrow> if \<not> (0 < step_decay_rate c \<and> step_decay_rate c \<le> 1) then 1 else 0)
    \<and> (validate_config cfg = [] \<longleftrightarrow>
         (\<forall>(nm, c) \<in> set (COEFFICIENTS cfg). enabled c \<longrightarrow> nm \<in> set (TUNING_ORDER cfg))
         \<and> (\<forall>nm \<in> set (TUNING_ORDER cfg). map_of (COEFFICIENTS cfg) nm \<noteq> None)
         \<and> (\<forall>(nm, c) \<in> set (COEFFICIENTS cfg).
               min_value c < max_value c
               \<and> min_value c \<le> default_value c \<and> default_value c \<le> max_value c
               \<and> 0 < initial_step_size c
               \<and> 0 < step_decay_rate c \<and> step_decay_rate c \<le> 1)
         \<and> PHYSICAL_MIN_VELOCITY_MPS cfg < PHYSICAL_MAX_VELOCITY_MPS cfg
         \<and> PHYSICAL_MIN_ANGLE_RAD cfg < PHYSICAL_MAX_ANGLE_RAD cfg
         \<and> PHYSICAL_MIN_DISTANCE_M cfg < PHYSICAL_MAX_DISTANCE_M cfg
         \<and> 1 \<le> N_INITIAL_POINTS cfg
         \<and> N_INITIAL_POINTS cfg \<le> N_CALLS_PER_COEFFICIENT cfg
         \<and> 0 < TUNER_UPDATE_RATE_HZ cfg
         \<and> 0 < MAX_NT_WRITE_RATE_HZ cfg
         \<and> 0 < MAX_NT_READ_RATE_HZ cfg)"
proof -
  have e: "validate_config cfg = [] \<longleftrightarrow>
         (\<forall>(nm, c) \<in> set (COEFFICIENTS cfg). enabled c \<longrightarrow> nm \<in> set (TUNING_ORDER cfg))
         \<and> (\<forall>nm \<in> set (TUNING_ORDER cfg). map_of (COEFFICIENTS cfg) nm \<noteq> None)
         \<and> (\<forall>(nm, c) \<in> set (COEFFICIENTS cfg).
               min_value c < max_value c
               \<and> min_value c \<le> default_value c \<and> default_value c \<le> max_value c
               \<and> 0 < initial_step_size c
               \<and> 0 < step_decay_rate c \<and> step_decay_rate c \<le> 1)
         \<and> PHYSICAL_MIN_VELOCITY_MPS cfg < PHYSICAL_MAX_VELOCITY_MPS cfg
         \<and> PHYSICAL_MIN_ANGLE_RAD cfg < PHYSICAL_MAX_ANGLE_RAD cfg
         \<and> PHYSICAL_MIN_DISTANCE_M cfg < PHYSICAL_MAX_DISTANCE_M cfg
         \<and> 1 \<le> N_INITIAL_POINTS cfg
         \<and> N_INITIAL_POINTS cfg \<le> N_CALLS_PER_COEFFICIENT cfg
         \<and> 0 < TUNER_UPDATE_RATE_HZ cfg
         \<and> 0 < MAX_NT_WRITE_RATE_HZ cfg
         \<and> 0 < MAX_NT_READ_RATE_HZ cfg"
    unfolding validate_config_empty order_warnings_empty undefined_warnings_empty
      coefficient_warnings_empty system_warnings_empty
    by (rule refl)
  show ?thesis
    unfolding count_validate_config
    using count_order_warnings [OF assms, of nm] count_undefined_warnings [of cfg nm]
      count_min_warnings [OF assms, of nm] count_default_warnings [OF assms, of nm]
      count_step_warnings [OF assms, of nm] count_decay_warnings [OF assms, of nm] e
    by (intro conjI) assumption+
qed

text \<open>The theorem at two configurations: one whose only coefficient has equal bounds, and
  one that satisfies every invariant.\<close>

theorem validate_config_reports_witness:
  "distinct (map fst (COEFFICIENTS (sample_config [(''kBad'', sample_coefficient 5 5 False)] [''kGhost''])))
   \<and> count_list (validate_config (sample_config [(''kBad'', sample_coefficient 5 5 False)] [''kGhost'']))
        ''kBad: min_value must be < max_value'' = 1
   \<and> distinct (map fst (COEFFICIENTS (sample_config [(''kGood'', sample_coefficient 0 90 False)] [''kGood''])))
   \<and> validate_config (sample_config [(''kGood'', sample_coefficient 0 90 False)] [''kGood'']) = []"
proof -
  let ?bad = "sample_config [(''kBad'', sample_coefficient 5 5 False)] [''kGhost'']"
  let ?good = "sample_config [(''kGood'', sample_coefficient 0 90 False)] [''kGood'']"
  have d1: "distinct (map fst (COEFFICIENTS ?bad))"
    by (simp add: sample_config_def)
  have d2: "distinct (map fst (COEFFICIENTS ?good))"
    by (simp add: sample_config_def)
  from validate_config_reports [OF d1, of "''kBad''"]
  have a: "count_list (validate_config ?bad) ''kBad: min_value must be < max_value'' = 1"
    by (simp add: sample_config_def sample_coefficient_def)
  from validate_config_reports [OF d2, of "''kGood''"]
  have b: "validate_config ?good = []"
    by (simp add: sample_config_def sample_coefficient_def)
  from d1 d2 a b show ?thesis by blast
qed

section \<open>The campaign sequence\<close>

lemma in_enabled_order:
  "c \<in> set (get_enabled_coefficients_in_order cfg) \<longleftrightarrow>
     (\<exists>nm \<in> set (TUNING_ORDER cfg). map_of (COEFFICIENTS cfg) nm = Some c \<and> enabled c)"
proof
  assume "c \<in> set (get_enabled_coefficients_in_order cfg)"
  then obtain nm where "nm \<in> set (TUNING_ORDER cfg)"
      and "c \<in> set (case map_of (COEFFICIENTS cfg) nm of None \<Rightarrow> []
                       | Some coeff \<Rightarrow> if enabled coeff then [coeff] else [])"
    by (auto simp: get_enabled_coefficients_in_order_def)
  then show "\<exists>nm \<in> set (TUNING_ORDER cfg). map_of (COEFFICIENTS cfg) nm = Some c \<and> enabled c"
    by (cases "map_of (COEFFICIENTS cfg) nm") (auto split: if_splits)
next
  assume "\<exists>nm \<in> set (TUNING_ORDER cfg). map_of (COEFFICIENTS cfg) nm = Some c \<and> enabled c"
  then obtain nm where "nm \<in> set (TUNING_ORDER cfg)"
      and "map_of (COEFFICIENTS cfg) nm = Some c" and "enabled c"
    by blast
  then show "c \<in> set (get_enabled_coefficients_in_order cfg)"
    by (force simp: get_enabled_coefficients_in_order_def)
qed

lemma min_warning_reported:
  assumes "map_of (COEFFICIENTS cfg) nm = Some c" and "min_value c \<ge> max_value c"
  shows "warning_message (MinNotBelowMax nm) \<in> set (validate_config cfg)"
proof -
  have "(nm, c) \<in> set (COEFFICIENTS cfg)"
    using assms(1) by (rule map_of_SomeD)
  moreover have "MinNotBelowMax nm \<in> set (coefficient_warnings (nm, c))"
    using assms(2) by (simp add: coefficient_warnings_def)
  ultimately have "MinNotBelowMax nm \<in> set (validate_warnings cfg)"
    unfolding validate_warnings_def by auto
  then have "warning_message (MinNotBelowMax nm) \<in> warning_message ` set (validate_warnings cfg)"
    by (rule imageI)
  then show ?thesis
    by (simp only: validate_config_def set_map)
qed

lemma step_warning_reported:
  assumes "map_of (COEFFICIENTS cfg) nm = Some c" and "initial_step_size c \<le> 0"
  shows "warning_message (StepNotPositive nm) \<in> set (validate_config cfg)"
proof -
  have "(nm, c) \<in> set (COEFFICIENTS cfg)"
    using assms(1) by (rule map_of_SomeD)
  moreover have "StepNotPositive nm \<in> set (coefficient_warnings (nm, c))"
    using assms(2) by (simp add: coefficient_warnings_def)
  ultimately have "StepNotPositive nm \<in> set (validate_warnings cfg)"
    unfolding validate_warnings_def by auto
  then have "warning_message (StepNotPositive nm) \<in> warning_message ` set (validate_warnings cfg)"
    by (rule imageI)
  then show ?thesis
    by (simp only: validate_config_def set_map)
qed

text \<open>
  Claim C2, as the code has it. \<open>get_enabled_coefficients_in_order\<close> returns exactly the
  coefficients that \<open>TUNING_ORDER\<close> names, that are defined and that are enabled, whatever
  their bounds and step size. So an enabled coefficient named in \<open>TUNING_ORDER\<close> whose
  \<open>min_value \<ge> max_value\<close> or whose \<open>initial_step_size \<le> 0\<close> stays in the campaign
  sequence; \<open>validate_config\<close> reports it with a warning.
\<close>

theorem invalid_enabled_coefficient_stays:
  "(c \<in> set (get_enabled_coefficients_in_order cfg) \<longleftrightarrow>
      (\<exists>nm \<in> set (TUNING_ORDER cfg). map_of (COEFFICIENTS cfg) nm = Some c \<and> enabled c))
   \<and> (nm \<in> set (TUNING_ORDER cfg) \<and> map_of (COEFFICIENTS cfg) nm = Some c \<and> enabled c
        \<and> min_value c \<ge> max_value c \<longrightarrow>
        c \<in> set (get_enabled_coefficients_in_order cfg)
        \<and> warning_message (MinNotBelowMax nm) \<in> set (validate_config cfg))
   \<and> (nm \<in> set (TUNING_ORDER cfg) \<and> map_of (COEFFICIENTS cfg) nm = Some c \<and> enabled c
        \<and> initial_step_size c \<le> 0 \<longrightarrow>
        c \<in> set (get_enabled_coefficients_in_order cfg)
        \<and> warning_message (StepNotPositive nm) \<in> set (validate_config cfg))"
  using in_enabled_order [of c cfg] min_warning_reported [of cfg nm c]
    step_warning_reported [of cfg nm c]
  by blast

theorem invalid_enabled_coefficient_stays_witness:
  "sample_coefficient 5 5 False
     \<in> set (get_enabled_coefficients_in_order
              (sample_config [(''kBad'', sample_coefficient 5 5 False)] [''kBad'']))
   \<and> ''kBad: min_value must be < max_value''
     \<in> set (validate_config (sample_config [(''kBad'', sample_coefficient 5 5 False)] [''kBad'']))"
  using invalid_enabled_coefficient_stays
    [of "sample_coefficient 5 5 False"
        "sample_config [(''kBad'', sample_coefficient 5 5 False)] [''kBad'']" "''kBad''"]
  by (simp add: sample_config_def sample_coefficient_def)

text \<open>
  Claim C2 as stated fails: an enabled coefficient with \<open>min_value = max_value = 5\<close> that
  \<open>TUNING_ORDER\<close> names is the campaign sequence that
  \<open>get_enabled_coefficients_in_order\<close> returns.
\<close>

theorem invalid_enabled_coefficient_counterexample:
  "enabled (sample_coefficient 5 5 False)
   \<and> min_value (sample_coefficient 5 5 False) \<ge> max_value (sample_coefficient 5 5 False)
   \<and> get_enabled_coefficients_in_order
        (sample_config [(''kBad'', sample_coefficient 5 5 False)] [''kBad''])
     = [sample_coefficient 5 5 False]"
  by (simp add: get_enabled_coefficients_in_order_def sample_config_def sample_coefficient_def)

section \<open>Integer coefficients and the upper bound\<close>

text \<open>
  Claim C1 at an integer coefficient with \<open>min_value = 0\<close> and \<open>max_value = 3.5\<close>, a
  configuration for which \<open>validate_config\<close> returns no warning and whose interval holds
  the whole numbers 0 to 3: \<open>clamp(100)\<close> clamps to 3.5 and rounds the tie to 4, which is
  above \<open>max_value\<close>.
\<close>

theorem clamp_integer_exceeds_max:
  "is_integer (sample_coefficient 0 (7 / 2) True)
   \<and> min_value (sample_coefficient 0 (7 / 2) True) \<le> max_value (sample_coefficient 0 (7 / 2) True)
   \<and> validate_config (sample_config [(''kSample'', sample_coefficient 0 (7 / 2) True)]
                          [''kSample'']) = []
   \<and> clamp (sample_coefficient 0 (7 / 2) True) (Fin 100) = Inr (PyInt 4)
   \<and> \<not> in_bounds (min_value (sample_coefficient 0 (7 / 2) True))
          (max_value (sample_coefficient 0 (7 / 2) True)) (PyInt 4)"
proof -
  have c: "clamp (sample_coefficient 0 (7 / 2) True) (Fin 100) = Inr (PyInt 4)"
    by code_simp
  have v: "validate_config (sample_config [(''kSample'', sample_coefficient 0 (7 / 2) True)]
                          [''kSample'']) = []"
    unfolding validate_config_empty order_warnings_empty undefined_warnings_empty
      coefficient_warnings_empty system_warnings_empty
    by (simp add: sample_config_def sample_coefficient_def)
  from c v show ?thesis
    by (simp add: sample_coefficient_def)
qed

end
